theory Spec2Isabelle
  imports Complex_Main
begin

section \<open>Numeric conventions\<close>

text \<open>
  The program computes on Python floats and NumPy float arrays. Samples, seconds and
  scores are read here as real numbers with exact arithmetic: rounding error, infinities
  and NaN are not part of this development. Python's unbounded \<open>int\<close> is \<open>int\<close>, an
  array is a list, and every exception the source can raise is a value of \<open>error\<close>.
\<close>

datatype error = ValueError | ZeroDivisionError

text \<open>\<open>int(x)\<close> on a float truncates toward zero.\<close>

definition py_int :: "real \<Rightarrow> int" where
  "py_int x = (if 0 \<le> x then \<lfloor>x\<rfloor> else \<lceil>x\<rceil>)"

text \<open>
  \<open>round(x)\<close> on a float, and the rounding of the format specification \<open>.6f\<close>, go to
  the nearest integer and send an exact tie to the even neighbour.
\<close>

definition py_round :: "real \<Rightarrow> int" where
  "py_round x =
     (let f = \<lfloor>x\<rfloor>; d = x - of_int f
      in if d < 1 / 2 then f else if 1 / 2 < d then f + 1 else if even f then f else f + 1)"

text \<open>
  Slicing \<open>xs[i:j]\<close> with step 1: a negative bound counts from the end, and both bounds
  are clamped to the list.
\<close>

definition py_clamp :: "nat \<Rightarrow> int \<Rightarrow> nat" where
  "py_clamp n i = (if i < 0 then nat (int n + i) else min n (nat i))"

definition py_slice :: "'a list \<Rightarrow> int \<Rightarrow> int \<Rightarrow> 'a list" where
  "py_slice xs i j =
     (let lo = py_clamp (length xs) i; hi = py_clamp (length xs) j
      in take (hi - lo) (drop lo xs))"


text \<open>\<open>range(0, stop, step)\<close> for a positive step.\<close>

definition py_range0 :: "nat \<Rightarrow> nat \<Rightarrow> nat list" where
  "py_range0 stop step = map (\<lambda>k. k * step) [0 ..< (stop + step - 1) div step]"

text \<open>
  The guard on an optional float that must also be positive, \<open>x is not None and x > 0\<close>
  (and equally \<open>x and x > 0\<close>): the value when the guard holds.
\<close>

definition positive_value :: "real option \<Rightarrow> real option" where
  "positive_value x = (case x of None \<Rightarrow> None | Some v \<Rightarrow> if 0 < v then Some v else None)"

section \<open>Formatting\<close>

definition digit_char :: "nat \<Rightarrow> char" where
  "digit_char d = ''0123456789'' ! d"

fun str_nat :: "nat \<Rightarrow> string" where
  "str_nat n = (if n < 10 then [digit_char n] else str_nat (n div 10) @ [digit_char (n mod 10)])"

declare str_nat.simps [simp del]

text \<open>\<open>f"{n}"\<close> for an integer: decimal digits, with a minus sign when negative.\<close>

definition str_int :: "int \<Rightarrow> string" where
  "str_int i = (if i < 0 then CHR ''-'' # str_nat (nat (- i)) else str_nat (nat i))"

text \<open>The six digits after the point: the fraction, padded with zeros on the left.\<close>

definition frac6 :: "nat \<Rightarrow> string" where
  "frac6 m = replicate (6 - length (str_nat m)) CHR ''0'' @ str_nat m"

text \<open>\<open>ffmpeg_time_format\<close>: \<open>f"{max(0.0, seconds):.6f}"\<close>.\<close>

definition ffmpeg_time_format :: "real \<Rightarrow> string" where
  "ffmpeg_time_format seconds =
     (let n = nat (py_round (max 0 seconds * 1000000))
      in str_nat (n div 1000000) @ ''.'' @ frac6 (n mod 1000000))"






section \<open>Gate\<close>

definition eps_floor :: real where
  "eps_floor = 1 / 10 ^ 12"

text \<open>\<open>apply_gate_db\<close>, lines 52 to 63.\<close>

definition apply_gate_db :: "real list \<Rightarrow> real option \<Rightarrow> real list" where
  "apply_gate_db y threshold_db =
     (case threshold_db of
        None \<Rightarrow> y
      | Some thr \<Rightarrow> map (\<lambda>s. if 20 * log 10 (\<bar>s\<bar> + eps_floor) < thr then 0 else s) y)"

section \<open>Offset estimator: cross-correlation\<close>

definition mean :: "real list \<Rightarrow> real" where
  "mean xs = sum_list xs / real (length xs)"

definition zero_mean :: "real list \<Rightarrow> real list" where
  "zero_mean xs = map (\<lambda>x. x - mean xs) xs"

text \<open>
  \<open>scipy.signal.correlate(x, y, mode="full")\<close> is a library call; it is modelled by the
  sum it computes. The entry for lag \<open>k\<close> is the sum of \<open>x[n + k] * y[n]\<close> over the
  \<open>n\<close> where both indices are in range, and the entries run over the lags from
  \<open>-(len(y) - 1)\<close> to \<open>len(x) - 1\<close>.
\<close>

definition correlate_at :: "real list \<Rightarrow> real list \<Rightarrow> int \<Rightarrow> real" where
  "correlate_at x y k =
     sum_list (map (\<lambda>n. if 0 \<le> int n + k \<and> int n + k < int (length x)
                         then x ! nat (int n + k) * y ! n else 0) [0 ..< length y])"

definition lags_full :: "nat \<Rightarrow> nat \<Rightarrow> int list" where
  "lags_full na nb = [- int nb + 1 .. int na - 1]"






definition sum_sq :: "real list \<Rightarrow> real" where
  "sum_sq xs = sum_list (map (\<lambda>x. x * x) xs)"

definition xcorr_denom :: "real list \<Rightarrow> real list \<Rightarrow> real" where
  "xcorr_denom a0 b0 = sqrt (sum_sq a0 * sum_sq b0) + eps_floor"


section \<open>Offset estimator: content\<close>

definition dot :: "real list \<Rightarrow> real list \<Rightarrow> real" where
  "dot u v = sum_list (map2 (*) u v)"

definition norm2 :: "real list \<Rightarrow> real" where
  "norm2 v = sqrt (sum_sq v)"

definition cosine_sim :: "real list \<Rightarrow> real list \<Rightarrow> real" where
  "cosine_sim v1 v2 = dot v1 v2 / (norm2 v1 * norm2 v2 + eps_floor)"

text \<open>The loop of lines 132 to 138 over the window starts, leaving at the first hit.\<close>

fun first_window :: "(nat \<Rightarrow> real) \<Rightarrow> real \<Rightarrow> nat list \<Rightarrow> nat option" where
  "first_window sim min_sim [] = None"
| "first_window sim min_sim (start # rest) =
     (if min_sim \<le> sim start then Some start else first_window sim min_sim rest)"

text \<open>
  \<open>find_content_anchor\<close>, lines 111 to 140. The feature extractor
  \<open>np.mean(librosa.feature.mfcc(y=seg, sr=sr, n_mfcc=20), axis=1)\<close> is a library call and
  is a parameter \<open>feat\<close> here: a total function from the sample rate and a segment to a
  feature vector.
\<close>

definition window_sim ::
  "(int \<Rightarrow> real list \<Rightarrow> real list) \<Rightarrow> real list \<Rightarrow> real list \<Rightarrow> int \<Rightarrow> int \<Rightarrow> nat \<Rightarrow> real" where
  "window_sim feat a_an b_an sr tmpl_len start =
     cosine_sim (feat sr (py_slice a_an 0 tmpl_len))
                (feat sr (py_slice b_an (int start) (int start + tmpl_len)))"

definition find_content_anchor ::
  "(int \<Rightarrow> real list \<Rightarrow> real list) \<Rightarrow> real list \<Rightarrow> real list \<Rightarrow> int \<Rightarrow> real \<Rightarrow> real \<Rightarrow> real
     \<Rightarrow> error + real option" where
  "find_content_anchor feat a_an b_an sr template_sec hop_sec min_sim =
     (let tmpl_len = py_int (template_sec * real_of_int sr)
      in if int (length a_an) < tmpl_len then Inr None
         else
           let hop = nat (max 1 (py_int (hop_sec * real_of_int sr)));
               last_start = nat (max 0 (int (length b_an) - tmpl_len))
           in case first_window (window_sim feat a_an b_an sr tmpl_len) min_sim
                     (py_range0 (last_start + 1) hop) of
                None \<Rightarrow> Inr None
              | Some start \<Rightarrow>
                  if sr = 0 then Inl ZeroDivisionError
                  else Inr (Some (real start / real_of_int sr)))"

section \<open>Analysis window builder\<close>

text \<open>Lines 454 to 457 of \<open>main\<close> (and 123 to 126 of \<open>run_alignment_job\<close>).\<close>

definition analysis_pad :: "real list \<Rightarrow> real list \<Rightarrow> int \<Rightarrow> real option \<Rightarrow> int" where
  "analysis_pad a_an b_an sr max_search =
     (case positive_value max_search of
        Some m \<Rightarrow> py_int (m * real_of_int sr)
      | None \<Rightarrow>
          if a_an \<noteq> [] \<and> b_an \<noteq> [] then int (min (length a_an) (length b_an)) - 1 else 0)"

text \<open>Lines 459 to 461: the pair of analysis signals after the target is truncated.\<close>

definition truncate_target :: "real list \<Rightarrow> real list \<Rightarrow> int \<Rightarrow> real list \<times> real list" where
  "truncate_target a_an b_an pad =
     (let needed_b_len = int (length a_an) + 2 * pad
      in if needed_b_len < int (length b_an) then (a_an, py_slice b_an 0 needed_b_len)
         else (a_an, b_an))"

text \<open>Lines 449 to 452: the cap on the reference.\<close>

definition cap_reference :: "real list \<Rightarrow> int \<Rightarrow> real option \<Rightarrow> real list" where
  "cap_reference a_an sr analysis_sec =
     (case positive_value analysis_sec of
        Some s \<Rightarrow>
          (let max_ref_samples = py_int (s * real_of_int sr)
           in if max_ref_samples < int (length a_an) then py_slice a_an 0 max_ref_samples
              else a_an)
      | None \<Rightarrow> a_an)"





section \<open>Shift command builder\<close>

definition dq :: string where
  "dq = [CHR 0x22]"

definition eps_shift :: real where
  "eps_shift = 1 / 1000000"

text \<open>\<open>build_align_command\<close>, lines 186 to 253.\<close>

definition build_align_command ::
  "string \<Rightarrow> string \<Rightarrow> int \<Rightarrow> string \<Rightarrow> real \<Rightarrow> bool \<Rightarrow> string option \<Rightarrow> error + string" where
  "build_align_command inhouse_path external_path sr mode offset_sec prefer_trim out_audio =
     (if mode \<noteq> ''external_to_inhouse'' \<and> mode \<noteq> ''inhouse_to_external'' then Inl ValueError
      else
        let target = (if mode = ''external_to_inhouse'' then external_path else inhouse_path);
            effective_offset = (if mode = ''external_to_inhouse'' then offset_sec else - offset_sec);
            default_out = (if mode = ''external_to_inhouse''
                           then ''external_aligned.wav'' else ''inhouse_aligned.wav'');
            out_path = (case out_audio of
                          None \<Rightarrow> default_out
                        | Some p \<Rightarrow> if p = [] then default_out else p)
        in Inr
          (if effective_offset < - eps_shift then
             ''ffmpeg -y -i '' @ dq @ target @ dq @ '' '' @
             ''-ac 1 -ar '' @ str_int sr @ '' -ss '' @ ffmpeg_time_format \<bar>effective_offset\<bar> @ '' '' @
             ''-c:a pcm_s16le -rf64 always '' @ dq @ out_path @ dq
           else if eps_shift < effective_offset then
             (let pad_ms = py_round (effective_offset * 1000)
              in ''ffmpeg -y -i '' @ dq @ target @ dq @ '' '' @
                 ''-ac 1 -ar '' @ str_int sr @ '' '' @
                 ''-af '' @ dq @ ''adelay='' @ str_int pad_ms @ ''|'' @ str_int pad_ms @ dq @ '' '' @
                 ''-c:a pcm_s16le -rf64 always '' @ dq @ out_path @ dq)
           else
             ''ffmpeg -y -i '' @ dq @ target @ dq @ '' -ac 1 -ar '' @ str_int sr @ '' '' @
             ''-c:a pcm_s16le -rf64 always '' @ dq @ out_path @ dq))"

text \<open>
  The same function read in stages. The three branches of lines 229 to 251 as data: which
  adjustment is chosen and its amount (\<open>trim_sec\<close> in seconds, \<open>pad_ms\<close> in
  milliseconds); the command text of each branch; and the bindings of lines 214 to 225.
  Lemma \<open>build_align_command_staged\<close> below shows that the stages compose to
  \<open>build_align_command\<close>.
\<close>

datatype shift_instruction = Trim real | Pad int | Passthrough

datatype shift_kind = KTrim | KPad | KPassthrough

fun kind_of :: "shift_instruction \<Rightarrow> shift_kind" where
  "kind_of (Trim t) = KTrim"
| "kind_of (Pad m) = KPad"
| "kind_of Passthrough = KPassthrough"

fun opposite_kind :: "shift_kind \<Rightarrow> shift_kind" where
  "opposite_kind KTrim = KPad"
| "opposite_kind KPad = KTrim"
| "opposite_kind KPassthrough = KPassthrough"

definition shift_instruction :: "real \<Rightarrow> shift_instruction" where
  "shift_instruction effective_offset =
     (if effective_offset < - eps_shift then Trim \<bar>effective_offset\<bar>
      else if eps_shift < effective_offset then Pad (py_round (effective_offset * 1000))
      else Passthrough)"

fun render_command :: "string \<Rightarrow> int \<Rightarrow> string \<Rightarrow> shift_instruction \<Rightarrow> string" where
  "render_command target sr out_path (Trim trim_sec) =
     ''ffmpeg -y -i '' @ dq @ target @ dq @ '' '' @
     ''-ac 1 -ar '' @ str_int sr @ '' -ss '' @ ffmpeg_time_format trim_sec @ '' '' @
     ''-c:a pcm_s16le -rf64 always '' @ dq @ out_path @ dq"
| "render_command target sr out_path (Pad pad_ms) =
     ''ffmpeg -y -i '' @ dq @ target @ dq @ '' '' @
     ''-ac 1 -ar '' @ str_int sr @ '' '' @
     ''-af '' @ dq @ ''adelay='' @ str_int pad_ms @ ''|'' @ str_int pad_ms @ dq @ '' '' @
     ''-c:a pcm_s16le -rf64 always '' @ dq @ out_path @ dq"
| "render_command target sr out_path Passthrough =
     ''ffmpeg -y -i '' @ dq @ target @ dq @ '' -ac 1 -ar '' @ str_int sr @ '' '' @
     ''-c:a pcm_s16le -rf64 always '' @ dq @ out_path @ dq"

definition valid_mode :: "string \<Rightarrow> bool" where
  "valid_mode mode = (mode = ''external_to_inhouse'' \<or> mode = ''inhouse_to_external'')"

definition effective_offset :: "string \<Rightarrow> real \<Rightarrow> real" where
  "effective_offset mode offset_sec =
     (if mode = ''external_to_inhouse'' then offset_sec else - offset_sec)"

definition target_path :: "string \<Rightarrow> string \<Rightarrow> string \<Rightarrow> string" where
  "target_path mode inhouse_path external_path =
     (if mode = ''external_to_inhouse'' then external_path else inhouse_path)"

definition output_path :: "string \<Rightarrow> string option \<Rightarrow> string" where
  "output_path mode out_audio =
     (let default_out = (if mode = ''external_to_inhouse''
                         then ''external_aligned.wav'' else ''inhouse_aligned.wav'')
      in case out_audio of None \<Rightarrow> default_out | Some p \<Rightarrow> if p = [] then default_out else p)"

definition emitted_instruction :: "string \<Rightarrow> real \<Rightarrow> error + shift_instruction" where
  "emitted_instruction mode offset_sec =
     (if valid_mode mode then Inr (shift_instruction (effective_offset mode offset_sec))
      else Inl ValueError)"

section \<open>The specification's wording, for comparison\<close>

text \<open>
  The analysis pad as the specification words it: the radius in samples when a positive
  radius is given, and otherwise one less than the shorter length.
\<close>

definition spec_analysis_pad :: "real list \<Rightarrow> real list \<Rightarrow> int \<Rightarrow> real option \<Rightarrow> int" where
  "spec_analysis_pad a_an b_an sr max_search =
     (case positive_value max_search of
        Some m \<Rightarrow> py_int (m * real_of_int sr)
      | None \<Rightarrow> int (min (length a_an) (length b_an)) - 1)"

text \<open>
  The window starts as the specification words them: from 0 up to
  \<open>len(b) - template_length\<close> inclusive, in steps of the hop.
\<close>

definition spec_window_starts :: "nat \<Rightarrow> int \<Rightarrow> nat \<Rightarrow> nat list" where
  "spec_window_starts nb tmpl_len hop =
     (if int nb - tmpl_len < 0 then [] else py_range0 (nat (int nb - tmpl_len) + 1) hop)"

definition spec_find_content_anchor ::
  "(int \<Rightarrow> real list \<Rightarrow> real list) \<Rightarrow> real list \<Rightarrow> real list \<Rightarrow> int \<Rightarrow> real \<Rightarrow> real \<Rightarrow> real
     \<Rightarrow> error + real option" where
  "spec_find_content_anchor feat a_an b_an sr template_sec hop_sec min_sim =
     (let tmpl_len = py_int (template_sec * real_of_int sr)
      in if int (length a_an) < tmpl_len then Inr None
         else
           let hop = nat (max 1 (py_int (hop_sec * real_of_int sr)))
           in case first_window (window_sim feat a_an b_an sr tmpl_len) min_sim
                     (spec_window_starts (length b_an) tmpl_len hop) of
                None \<Rightarrow> Inr None
              | Some start \<Rightarrow>
                  if sr = 0 then Inl ZeroDivisionError
                  else Inr (Some (real start / real_of_int sr)))"

section \<open>Notions used to state the results\<close>

text \<open>The lags that survive the mask of line 95, and their normalized scores.\<close>

definition kept_lags :: "nat \<Rightarrow> nat \<Rightarrow> int \<Rightarrow> int list" where
  "kept_lags na nb max_lag = filter (\<lambda>l. - max_lag \<le> l \<and> l \<le> max_lag) (lags_full na nb)"

definition kept_scores :: "real list \<Rightarrow> real list \<Rightarrow> int \<Rightarrow> real list" where
  "kept_scores a0 b0 max_lag =
     map (\<lambda>l. correlate_at a0 b0 l / xcorr_denom a0 b0)
       (kept_lags (length a0) (length b0) max_lag)"

text \<open>An index of a first maximum of a list.\<close>

definition first_max_at :: "real list \<Rightarrow> nat \<Rightarrow> bool" where
  "first_max_at xs i =
     (i < length xs \<and> list_all (\<lambda>x. x \<le> xs ! i) xs \<and> list_all (\<lambda>x. x < xs ! i) (take i xs))"

section \<open>Rounding and formatting\<close>
















section \<open>Shift command builder: the stages compose to the function\<close>

lemma build_align_command_staged:
  "build_align_command inhouse_path external_path sr mode offset_sec prefer_trim out_audio =
     (case emitted_instruction mode offset_sec of
        Inl e \<Rightarrow> Inl e
      | Inr ins \<Rightarrow>
          Inr (render_command (target_path mode inhouse_path external_path) sr
                 (output_path mode out_audio) ins))"
  by (simp add: build_align_command_def emitted_instruction_def valid_mode_def
      shift_instruction_def effective_offset_def target_path_def output_path_def Let_def)



lemma kind_of_shift_instruction:
  "kind_of (shift_instruction e) =
     (if e < - (1 / 1000000) then KTrim else if 1 / 1000000 < e then KPad else KPassthrough)"
  by (simp add: shift_instruction_def eps_shift_def)

section \<open>Evaluation at concrete inputs\<close>

lemma py_round_of_int: "py_round (of_int n) = n"
  by (simp add: py_round_def)

lemma py_round_numeral: "py_round (numeral n) = numeral n"
  using py_round_of_int [of "numeral n"] by simp

lemma py_round_zero: "py_round 0 = 0"
  by (simp add: py_round_def)


section \<open>Gate levels at concrete samples\<close>




section \<open>Cross-correlation estimator: masks and the first maximum\<close>




lemma first_max_at_iff:
  "first_max_at xs i \<longleftrightarrow>
     i < length xs \<and> (\<forall>j < length xs. xs ! j \<le> xs ! i) \<and> (\<forall>j < i. xs ! j < xs ! i)"
  by (auto simp: first_max_at_def list_all_length)


lemma first_max_at_unique: "first_max_at xs i \<Longrightarrow> first_max_at xs j \<Longrightarrow> i = j"
  unfolding first_max_at_iff by (metis linorder_neqE_nat not_less)

lemma length_zero_mean [simp]: "length (zero_mean xs) = length xs"
  by (simp add: zero_mean_def)




lemma length_kept_scores [simp]:
  "length (kept_scores a0 b0 max_lag) = length (kept_lags (length a0) (length b0) max_lag)"
  by (simp add: kept_scores_def)





lemma sqrt_ex: "sqrt (2 * 2) = 2"
  by simp



section \<open>Degenerate signals, window starts and the first qualifying window\<close>


lemma py_slice_Nil [simp]: "py_slice [] i j = []"
  by (simp add: py_slice_def)

lemma apply_gate_db_Nil [simp]: "apply_gate_db [] thr = []"
  by (simp add: apply_gate_db_def split: option.splits)

lemma cap_reference_Nil [simp]: "cap_reference [] sr analysis_sec = []"
  by (simp add: cap_reference_def Let_def split: option.splits)

lemma truncate_target_fst [simp]: "fst (truncate_target a_an b_an pad) = a_an"
  by (simp add: truncate_target_def Let_def)

lemma truncate_target_Nil [simp]: "snd (truncate_target a_an [] pad) = []"
  by (simp add: truncate_target_def Let_def)




lemma first_window_Some:
  "first_window sim min_sim starts = Some s \<Longrightarrow>
     \<exists>i < length starts. starts ! i = s \<and> min_sim \<le> sim s \<and> (\<forall>j < i. sim (starts ! j) < min_sim)"
proof (induction starts)
  case Nil
  then show ?case by simp
next
  case (Cons x xs)
  show ?case
  proof (cases "min_sim \<le> sim x")
    case True
    with Cons.prems have "s = x" by simp
    with True show ?thesis by (intro exI [of _ 0]) simp
  next
    case False
    with Cons.prems have "first_window sim min_sim xs = Some s" by simp
    from Cons.IH [OF this] obtain i where
      i: "i < length xs" "xs ! i = s" "min_sim \<le> sim s" "\<forall>j < i. sim (xs ! j) < min_sim"
      by blast
    have "\<forall>j < Suc i. sim ((x # xs) ! j) < min_sim"
      using i(4) False by (auto simp: less_Suc_eq_0_disj)
    with i show ?thesis by (intro exI [of _ "Suc i"]) simp
  qed
qed












lemma py_slice_same [simp]: "py_slice xs i i = []"
  by (simp add: py_slice_def)




section \<open>Analysis pad and truncation\<close>





section \<open>Claims about the shift command builder\<close>



text \<open>
  Claim C6, as amended. The direction \<open>inhouse_to_external\<close> negates the offset before
  the decision. So for one offset \<open>o\<close> the two directions choose opposite adjustments
  (trim against pad, or passthrough in both when \<open>|o| \<le> 1e-6\<close>), and
  \<open>external_to_inhouse\<close> at \<open>o\<close> chooses the same adjustment as
  \<open>inhouse_to_external\<close> at \<open>-o\<close>.
\<close>

theorem build_align_command_direction_flip:
  "build_align_command inhouse_path external_path sr ''external_to_inhouse'' off prefer_trim out_audio
     = Inr (render_command external_path sr (output_path ''external_to_inhouse'' out_audio)
              (shift_instruction off)) \<and>
   build_align_command inhouse_path external_path sr ''inhouse_to_external'' off prefer_trim out_audio
     = Inr (render_command inhouse_path sr (output_path ''inhouse_to_external'' out_audio)
              (shift_instruction (- off))) \<and>
   build_align_command inhouse_path external_path sr ''inhouse_to_external'' (- off) prefer_trim out_audio
     = Inr (render_command inhouse_path sr (output_path ''inhouse_to_external'' out_audio)
              (shift_instruction off)) \<and>
   kind_of (shift_instruction (- off)) = opposite_kind (kind_of (shift_instruction off)) \<and>
   (kind_of (shift_instruction off) = KPassthrough \<longleftrightarrow> \<bar>off\<bar> \<le> 1 / 1000000)"
  by (auto simp: build_align_command_staged emitted_instruction_def valid_mode_def
      effective_offset_def target_path_def kind_of_shift_instruction)

theorem build_align_command_direction_flip_witness:
  "build_align_command ''in.wav'' ''ex.wav'' 48000 ''external_to_inhouse'' 1 False None
     = Inr (render_command ''ex.wav'' 48000 ''external_aligned.wav'' (Pad 1000)) \<and>
   build_align_command ''in.wav'' ''ex.wav'' 48000 ''inhouse_to_external'' 1 False None
     = Inr (render_command ''in.wav'' 48000 ''inhouse_aligned.wav'' (Trim 1)) \<and>
   kind_of (shift_instruction (- 1)) = KTrim \<and> kind_of (shift_instruction 1) = KPad"
proof -
  have o1: "output_path ''external_to_inhouse'' None = ''external_aligned.wav''"
    and o2: "output_path ''inhouse_to_external'' None = ''inhouse_aligned.wav''"
    by (simp_all add: output_path_def)
  have s1: "shift_instruction 1 = Pad 1000" and s2: "shift_instruction (- 1) = Trim 1"
    by (simp_all add: shift_instruction_def eps_shift_def py_round_numeral)
  note w = build_align_command_direction_flip [where off = 1 and inhouse_path = "''in.wav''"
      and external_path = "''ex.wav''" and sr = 48000 and prefer_trim = False
      and out_audio = None, unfolded o1 o2 s1 s2]
  from w [THEN conjunct1] w [THEN conjunct2, THEN conjunct1] show ?thesis
    by (simp add: s1 s2)
qed

text \<open>
  The claim as it is worded fails: at offset 1 for \<open>external_to_inhouse\<close> and offset -1
  for \<open>inhouse_to_external\<close> both commands are a pad of 1000 ms, not opposite adjustments.
\<close>

theorem build_align_command_direction_flip_counterexample:
  "build_align_command ''in.wav'' ''ex.wav'' 48000 ''external_to_inhouse'' 1 False None
     = Inr (render_command ''ex.wav'' 48000 ''external_aligned.wav'' (Pad 1000)) \<and>
   build_align_command ''in.wav'' ''ex.wav'' 48000 ''inhouse_to_external'' (- 1) False None
     = Inr (render_command ''in.wav'' 48000 ''inhouse_aligned.wav'' (Pad 1000)) \<and>
   emitted_instruction ''external_to_inhouse'' 1 = Inr (Pad 1000) \<and>
   emitted_instruction ''inhouse_to_external'' (- 1) = Inr (Pad 1000) \<and>
   kind_of (Pad 1000) \<noteq> opposite_kind (kind_of (Pad 1000))"
proof -
  have s1: "shift_instruction 1 = Pad 1000"
    by (simp add: shift_instruction_def eps_shift_def py_round_numeral)
  have e1: "emitted_instruction ''external_to_inhouse'' 1 = Inr (Pad 1000)"
    and e2: "emitted_instruction ''inhouse_to_external'' (- 1) = Inr (Pad 1000)"
    by (simp_all add: emitted_instruction_def valid_mode_def effective_offset_def s1)
  have "build_align_command ''in.wav'' ''ex.wav'' 48000 ''external_to_inhouse'' 1 False None
     = Inr (render_command ''ex.wav'' 48000 ''external_aligned.wav'' (Pad 1000))"
    unfolding build_align_command_staged e1 by (simp add: target_path_def output_path_def)
  moreover have "build_align_command ''in.wav'' ''ex.wav'' 48000 ''inhouse_to_external'' (- 1) False None
     = Inr (render_command ''in.wav'' 48000 ''inhouse_aligned.wav'' (Pad 1000))"
    unfolding build_align_command_staged e2 by (simp add: target_path_def output_path_def)
  ultimately show ?thesis using e1 e2 by simp
qed

text \<open>
  Claim C7. The command does not depend on the trim-versus-pad preference flag: the two
  runs that differ only in the flag give the same result.
\<close>

theorem build_align_command_ignores_preference:
  "build_align_command inhouse_path external_path sr mode offset_sec p out_audio =
   build_align_command inhouse_path external_path sr mode offset_sec q out_audio"
  by (simp add: build_align_command_def)

theorem build_align_command_ignores_preference_witness:
  "build_align_command ''in.wav'' ''ex.wav'' 48000 ''external_to_inhouse'' (- 5 / 2) True None =
   build_align_command ''in.wav'' ''ex.wav'' 48000 ''external_to_inhouse'' (- 5 / 2) False None"
  by (rule build_align_command_ignores_preference)



section \<open>Claims about the gate\<close>



section \<open>Claims about the cross-correlation estimator\<close>






section \<open>Claims about the content estimator\<close>





text \<open>
  When the target is at least as long as the template, the estimator and the wording
  agree; they differ only on a target shorter than the template.
\<close>

lemma find_content_anchor_agrees_with_wording:
  assumes "py_int (template_sec * real_of_int sr) \<le> int (length b_an)"
  shows "spec_find_content_anchor feat a_an b_an sr template_sec hop_sec min_sim =
         find_content_anchor feat a_an b_an sr template_sec hop_sec min_sim"
proof -
  have "spec_window_starts (length b_an) (py_int (template_sec * real_of_int sr)) hop =
        py_range0 (nat (max 0 (int (length b_an) - py_int (template_sec * real_of_int sr))) + 1) hop"
    for hop
    using assms by (simp add: spec_window_starts_def max_def)
  then show ?thesis
    by (simp add: spec_find_content_anchor_def find_content_anchor_def Let_def)
qed

section \<open>Claims about degenerate signals\<close>



section \<open>Claims about the analysis window builder\<close>




text \<open>On two non-empty signals the pad is the one the wording gives.\<close>

lemma analysis_pad_agrees_with_wording:
  "a_an \<noteq> [] \<Longrightarrow> b_an \<noteq> [] \<Longrightarrow>
     analysis_pad a_an b_an sr max_search = spec_analysis_pad a_an b_an sr max_search"
  by (simp add: analysis_pad_def spec_analysis_pad_def)


end
